theory Spec2Isabelle
  imports Main
begin

section \<open>Go values and control flow\<close>

text \<open>
  A value of Go's empty interface, as far as \<open>panic\<close> and \<open>recover\<close> see it: the nil
  interface, a string (the registry panics with string messages) or a run-time error
  (a method call through a nil interface or nil pointer).
\<close>

datatype any = AnyNil | AnyString string | AnyRuntimeError string

text \<open>
  A call either returns a value or panics with the value that \<open>recover\<close> would yield.
  \<open>Panic AnyNil\<close> is the panic started by \<open>panic(nil)\<close> under the language rules in force
  before Go 1.21 (and under \<open>GODEBUG=panicnil=1\<close> afterwards), for which \<open>recover\<close>
  returns nil.
\<close>

datatype 'a result = Return 'a | Panic any

definition nil_dereference :: any where
  "nil_dereference = AnyRuntimeError ''invalid memory address or nil pointer dereference''"

text \<open>\<open>recover()\<close> in a deferred function: nil when the function is not panicking.\<close>

fun recover :: "'a result \<Rightarrow> any" where
  "recover (Return x) = AnyNil"
| "recover (Panic v) = v"

text \<open>Sequencing of two calls: a panic in the first skips the second.\<close>

definition and_then ::
  "('s \<Rightarrow> 'a result \<times> 's) \<Rightarrow> ('a \<Rightarrow> 's \<Rightarrow> 'b result \<times> 's) \<Rightarrow> 's \<Rightarrow> 'b result \<times> 's" where
  "and_then m f s = (case m s of (Return a, s') \<Rightarrow> f a s' | (Panic v, s') \<Rightarrow> (Panic v, s'))"

type_synonym bytes = string
type_synonym error = "string option"
type_synonym header = "string \<rightharpoonup> string list"

definition StatusOK :: int where
  "StatusOK = 200"

section \<open>The program state\<close>

text \<open>
  \<open>*http.Request\<close> and \<open>*url.URL\<close> are pointers to structs that every handler of a chain
  may assign. Of \<open>url.URL\<close> the package reads the field \<open>Path\<close>, of \<open>http.Request\<close> the
  field \<open>URL\<close>, which is a pointer: an address of a \<open>url.URL\<close>, or nil.
\<close>

record URL =
  Path :: string

record Request =
  URL :: "nat option"

text \<open>A \<open>*http.Request\<close>: the address of the struct, or nil.\<close>

type_synonym Request_ptr = "nat option"

text \<open>
  \<open>heap\<close> holds the \<open>status\<close> field of every \<open>statusResponseWriter\<close> that has been
  allocated, by address; \<open>next_addr\<close> is the next free address; \<open>requests\<close> and \<open>urls\<close>
  hold the \<open>http.Request\<close> and \<open>url.URL\<close> structs, by address; \<open>ext\<close> is the state of
  everything outside the package (the transport's response writers, the log writers, the
  clock, the handlers' own variables).
\<close>

record 'e world =
  heap :: "nat \<Rightarrow> int"
  next_addr :: nat
  requests :: "nat \<Rightarrow> Request"
  urls :: "nat \<Rightarrow> URL"
  ext :: 'e

text \<open>
  An \<open>http.ResponseWriter\<close> interface value is its method set. Each method may change the
  state and may panic.
\<close>

record 'e ResponseWriter =
  rw_Header :: "'e world \<Rightarrow> header result \<times> 'e world"
  rw_Write :: "bytes \<Rightarrow> 'e world \<Rightarrow> (int \<times> error) result \<times> 'e world"
  rw_WriteHeader :: "int \<Rightarrow> 'e world \<Rightarrow> unit result \<times> 'e world"

text \<open>The nil interface value: every method call is a nil dereference.\<close>

definition nil_ResponseWriter :: "'e ResponseWriter" where
  "nil_ResponseWriter =
     \<lparr>rw_Header = (\<lambda>\<sigma>. (Panic nil_dereference, \<sigma>)),
      rw_Write = (\<lambda>data \<sigma>. (Panic nil_dereference, \<sigma>)),
      rw_WriteHeader = (\<lambda>statusValue \<sigma>. (Panic nil_dereference, \<sigma>))\<rparr>"

text \<open>An \<open>io.Writer\<close> interface value.\<close>

record 'e Writer =
  io_Write :: "bytes \<Rightarrow> 'e world \<Rightarrow> (int \<times> error) result \<times> 'e world"

text \<open>An \<open>http.Handler\<close> interface value: nil, or a function with \<open>ServeHTTP\<close> calling it.\<close>

datatype 'e Handler =
  NilHandler
| HandlerFunc "'e ResponseWriter \<Rightarrow> Request_ptr \<Rightarrow> 'e world \<Rightarrow> unit result \<times> 'e world"

fun ServeHTTP ::
  "'e Handler \<Rightarrow> 'e ResponseWriter \<Rightarrow> Request_ptr \<Rightarrow> 'e world \<Rightarrow> unit result \<times> 'e world" where
  "ServeHTTP NilHandler w r \<sigma> = (Panic nil_dereference, \<sigma>)"
| "ServeHTTP (HandlerFunc f) w r \<sigma> = f w r \<sigma>"

section \<open>statusResponseWriter\<close>

text \<open>
  A \<open>*statusResponseWriter\<close>: the \<open>wrapped\<close> field, which is set by the composite literal
  that builds the struct and never assigned again, and the address of the \<open>status\<close>
  field in the heap. Go's \<open>int\<close> is modelled by \<open>int\<close>: the package compares and prints
  status values and does no arithmetic on them.
\<close>

record 'e statusResponseWriter =
  wrapped :: "'e ResponseWriter"
  status_addr :: nat

definition status :: "'e statusResponseWriter \<Rightarrow> 'e world \<Rightarrow> int" where
  "status l \<sigma> = heap \<sigma> (status_addr l)"

definition status_assign :: "'e statusResponseWriter \<Rightarrow> int \<Rightarrow> 'e world \<Rightarrow> 'e world" where
  "status_assign l v \<sigma> = \<sigma>\<lparr>heap := (heap \<sigma>)(status_addr l := v)\<rparr>"

definition Header :: "'e statusResponseWriter \<Rightarrow> 'e world \<Rightarrow> header result \<times> 'e world" where
  "Header l \<sigma> = rw_Header (wrapped l) \<sigma>"

definition setStatus :: "'e statusResponseWriter \<Rightarrow> int \<Rightarrow> 'e world \<Rightarrow> 'e world" where
  "setStatus l statusValue \<sigma> =
     (if status l \<sigma> = 0 then status_assign l statusValue \<sigma> else \<sigma>)"

definition Write ::
  "'e statusResponseWriter \<Rightarrow> bytes \<Rightarrow> 'e world \<Rightarrow> (int \<times> error) result \<times> 'e world" where
  "Write l data \<sigma> = rw_Write (wrapped l) data (setStatus l StatusOK \<sigma>)"

definition WriteHeader ::
  "'e statusResponseWriter \<Rightarrow> int \<Rightarrow> 'e world \<Rightarrow> unit result \<times> 'e world" where
  "WriteHeader l statusValue \<sigma> =
     rw_WriteHeader (wrapped l) statusValue (setStatus l statusValue \<sigma>)"

definition GetStatus :: "'e statusResponseWriter \<Rightarrow> 'e world \<Rightarrow> int" where
  "GetStatus l \<sigma> = (if status l \<sigma> = 0 then StatusOK else status l \<sigma>)"

text \<open>The pointer, seen as an \<open>http.ResponseWriter\<close>.\<close>

definition as_ResponseWriter :: "'e statusResponseWriter \<Rightarrow> 'e ResponseWriter" where
  "as_ResponseWriter l =
     \<lparr>rw_Header = Header l, rw_Write = Write l, rw_WriteHeader = WriteHeader l\<rparr>"

text \<open>\<open>&statusResponseWriter{wrapped: w}\<close>: a new struct, its \<open>status\<close> zero.\<close>

definition new_statusResponseWriter ::
  "'e ResponseWriter \<Rightarrow> 'e world \<Rightarrow> 'e statusResponseWriter \<times> 'e world" where
  "new_statusResponseWriter w \<sigma> =
     (\<lparr>wrapped = w, status_addr = next_addr \<sigma>\<rparr>,
      \<sigma>\<lparr>heap := (heap \<sigma>)(next_addr \<sigma> := 0), next_addr := Suc (next_addr \<sigma>)\<rparr>)"

text \<open>A sequence of \<open>WriteHeader\<close> calls made one after the other; a panic ends it.\<close>

fun WriteHeader_calls ::
  "'e statusResponseWriter \<Rightarrow> int list \<Rightarrow> 'e world \<Rightarrow> unit result \<times> 'e world" where
  "WriteHeader_calls l [] \<sigma> = (Return (), \<sigma>)"
| "WriteHeader_calls l (c # cs) \<sigma> =
     (case WriteHeader l c \<sigma> of
        (Return u, \<sigma>') \<Rightarrow> WriteHeader_calls l cs \<sigma>'
      | (Panic v, \<sigma>') \<Rightarrow> (Panic v, \<sigma>'))"

section \<open>The standard library, as far as the package calls it\<close>

text \<open>
  \<open>time.Now\<close> reads a clock that belongs to the state; \<open>Time.Sub\<close> and the rendering
  of a \<open>time.Duration\<close> by the verb \<open>%v\<close> are functions of the library; \<open>os.Stdout\<close> and
  \<open>os.Stderr\<close> are its two writers. The package fixes none of them, so they are
  parameters. Times and durations are counts of nanoseconds.
\<close>

type_synonym Time = int
type_synonym Duration = int

record 'e stdlib =
  time_Now :: "'e world \<Rightarrow> Time \<times> 'e world"
  time_Sub :: "Time \<Rightarrow> Time \<Rightarrow> Duration"
  Duration_String :: "Duration \<Rightarrow> string"
  os_Stdout :: "'e Writer"
  os_Stderr :: "'e Writer"

text \<open>The verb \<open>%d\<close> on an \<open>int\<close>: decimal digits, a minus sign before a negative number.\<close>

definition digit_char :: "nat \<Rightarrow> char" where
  "digit_char n = ''0123456789'' ! n"

fun nat_digits :: "nat \<Rightarrow> string" where
  "nat_digits n =
     (if n < 10 then [digit_char n] else nat_digits (n div 10) @ [digit_char (n mod 10)])"

declare nat_digits.simps [simp del]

definition format_d :: "int \<Rightarrow> string" where
  "format_d i = (if i < 0 then CHR ''-'' # nat_digits (nat (- i)) else nat_digits (nat i))"

text \<open>\<open>fmt.Sprintf("%d %s %v\n", code, path, d)\<close>.\<close>

definition Sprintf_d_s_v :: "'e stdlib \<Rightarrow> int \<Rightarrow> string \<Rightarrow> Duration \<Rightarrow> string" where
  "Sprintf_d_s_v lib code path d =
     format_d code @ '' '' @ path @ '' '' @ Duration_String lib d @ [CHR 0x0A]"

text \<open>
  The expression \<open>r.URL.Path\<close>, read in the state in which it is evaluated: a nil \<open>r\<close> or
  a nil \<open>r.URL\<close> is a nil dereference.
\<close>

definition URL_Path :: "Request_ptr \<Rightarrow> 'e world \<Rightarrow> string result \<times> 'e world" where
  "URL_Path r \<sigma> =
     (case r of
        None \<Rightarrow> (Panic nil_dereference, \<sigma>)
      | Some a \<Rightarrow>
          (case URL (requests \<sigma> a) of
             None \<Rightarrow> (Panic nil_dereference, \<sigma>)
           | Some b \<Rightarrow> (Return (Path (urls \<sigma> b)), \<sigma>)))"

section \<open>The middleware\<close>

definition NewLoggingMiddleware :: "'e stdlib \<Rightarrow> 'e Writer \<Rightarrow> 'e Handler \<Rightarrow> 'e Handler" where
  "NewLoggingMiddleware lib out chain = HandlerFunc (\<lambda>w r \<sigma>.
     let (statusWriter, \<sigma>1) = new_statusResponseWriter w \<sigma>;
         (start, \<sigma>2) = time_Now lib \<sigma>1
     in and_then (ServeHTTP chain (as_ResponseWriter statusWriter) r) (\<lambda>u \<sigma>3.
          let (end, \<sigma>4) = time_Now lib \<sigma>3;
              code = GetStatus statusWriter \<sigma>4
          in and_then (URL_Path r) (\<lambda>path.
               and_then (io_Write out (Sprintf_d_s_v lib code path (time_Sub lib end start)))
                 (\<lambda>n \<sigma>5. (Return (), \<sigma>5))) \<sigma>4) \<sigma>2)"

text \<open>
  The deferred function runs when the call of \<open>chain.ServeHTTP\<close> has returned or
  panicked. Calling \<open>recover\<close> stops the panic; a panic of \<open>w.WriteHeader(500)\<close> inside
  the deferred function is a new panic of the handler.
\<close>

definition NewPanicMiddleware :: "'e Handler \<Rightarrow> 'e Handler" where
  "NewPanicMiddleware chain = HandlerFunc (\<lambda>w r \<sigma>.
     let (res, \<sigma>') = ServeHTTP chain w r \<sigma>;
         rv = recover res
     in if rv \<noteq> AnyNil then rw_WriteHeader w 500 \<sigma>' else (Return (), \<sigma>'))"

section \<open>The registry\<close>

text \<open>
  A Go function value is nil or a function. The registry is the package variable
  \<open>registry\<close>, a map from keys to such values; the lock around each operation has no
  effect on a single thread of calls and is left out.
\<close>

datatype 'f func = NilFunc | FuncValue 'f

type_synonym 'f registry = "string \<rightharpoonup> 'f func"

definition Register :: "string \<Rightarrow> 'f func \<Rightarrow> 'f registry \<Rightarrow> unit result \<times> 'f registry" where
  "Register key f reg =
     (if f = NilFunc then (Return (), reg)
      else if reg key \<noteq> None then (Panic (AnyString ''Middleware registry key reused''), reg)
      else (Return (), reg(key \<mapsto> f)))"

text \<open>Reading a map at a missing key yields the zero value, here the nil function.\<close>

definition Get :: "string \<Rightarrow> 'f registry \<Rightarrow> 'f func \<times> bool" where
  "Get key reg = (case reg key of None \<Rightarrow> (NilFunc, False) | Some f \<Rightarrow> (f, True))"

definition MustGet :: "string \<Rightarrow> 'f registry \<Rightarrow> 'f func result" where
  "MustGet key reg =
     (let f = (case reg key of None \<Rightarrow> NilFunc | Some g \<Rightarrow> g)
      in if f = NilFunc then Panic (AnyString ''Invalid middleware requested'') else Return f)"

type_synonym 'e constructor = "'e Handler \<Rightarrow> 'e Handler"

text \<open>The package's \<open>init\<close> function.\<close>

definition init :: "'e stdlib \<Rightarrow> 'e constructor registry \<Rightarrow> unit result \<times> 'e constructor registry" where
  "init lib =
     and_then (Register ''middleware.Panic'' (FuncValue NewPanicMiddleware)) (\<lambda>u.
     and_then (Register ''middleware.LoggingStdOut''
                 (FuncValue (\<lambda>chain. NewLoggingMiddleware lib (os_Stdout lib) chain))) (\<lambda>u.
     Register ''middleware.LoggingStdErr''
                 (FuncValue (\<lambda>chain. NewLoggingMiddleware lib (os_Stderr lib) chain))))"

text \<open>
  The variable \<open>registry\<close> is initialised to an empty map before \<open>init\<close> runs; the state
  of the registry when the program starts is what \<open>init\<close> leaves.
\<close>

definition bootstrap :: "'e stdlib \<Rightarrow> unit result \<times> 'e constructor registry" where
  "bootstrap lib = init lib Map.empty"

text \<open>The operations on the registry, and the registry after a sequence of them.\<close>

datatype 'e registry_op =
  OpRegister string "'e constructor func"
| OpGet string
| OpMustGet string
| OpInit

fun registry_after :: "'e stdlib \<Rightarrow> 'e registry_op \<Rightarrow> 'e constructor registry \<Rightarrow> 'e constructor registry" where
  "registry_after lib (OpRegister key f) reg = snd (Register key f reg)"
| "registry_after lib (OpGet key) reg = reg"
| "registry_after lib (OpMustGet key) reg = reg"
| "registry_after lib OpInit reg = snd (init lib reg)"

fun registry_after_all ::
  "'e stdlib \<Rightarrow> 'e registry_op list \<Rightarrow> 'e constructor registry \<Rightarrow> 'e constructor registry" where
  "registry_after_all lib [] reg = reg"
| "registry_after_all lib (x # xs) reg = registry_after_all lib xs (registry_after lib x reg)"

section \<open>Conditions on the wrapped writer\<close>

text \<open>
  The \<open>status\<close> field is private to the package and the struct is reachable only through
  the pointer, so no method of the writer it wraps assigns it. In the model a method of
  the wrapped writer is any function on the state; the condition says that it leaves the
  wrapper's \<open>status\<close> as it finds it.
\<close>

definition wrapped_keeps_status :: "'e statusResponseWriter \<Rightarrow> bool" where
  "wrapped_keeps_status l =
     ((\<forall>c \<sigma>. status l (snd (rw_WriteHeader (wrapped l) c \<sigma>)) = status l \<sigma>) \<and>
      (\<forall>d \<sigma>. status l (snd (rw_Write (wrapped l) d \<sigma>)) = status l \<sigma>))"

section \<open>A recording writer and the handlers of the package's tests\<close>

text \<open>
  The package's tests run the middleware against a response recorder, a byte buffer and
  a few small handlers. The same setting, for the worked examples below: the recorder
  keeps the codes passed to \<open>WriteHeader\<close> and the bytes passed to \<open>Write\<close>, the log
  buffer keeps what is written to it, and the clock is a number in the state.
\<close>

record testbed =
  codes :: "int list"
  body :: bytes
  log_buffer :: bytes
  clock :: Time
  called :: bool

definition recorder :: "testbed ResponseWriter" where
  "recorder =
     \<lparr>rw_Header = (\<lambda>\<sigma>. (Return Map.empty, \<sigma>)),
      rw_Write = (\<lambda>data \<sigma>.
        (Return (int (length data), None), \<sigma>\<lparr>ext := (ext \<sigma>)\<lparr>body := body (ext \<sigma>) @ data\<rparr>\<rparr>)),
      rw_WriteHeader = (\<lambda>statusValue \<sigma>.
        (Return (), \<sigma>\<lparr>ext := (ext \<sigma>)\<lparr>codes := codes (ext \<sigma>) @ [statusValue]\<rparr>\<rparr>))\<rparr>"

definition buffer :: "testbed Writer" where
  "buffer =
     \<lparr>io_Write = (\<lambda>data \<sigma>.
        (Return (int (length data), None),
         \<sigma>\<lparr>ext := (ext \<sigma>)\<lparr>log_buffer := log_buffer (ext \<sigma>) @ data\<rparr>\<rparr>))\<rparr>"

definition test_lib :: "testbed stdlib" where
  "test_lib =
     \<lparr>time_Now = (\<lambda>\<sigma>. (clock (ext \<sigma>), \<sigma>)),
      time_Sub = (\<lambda>t u. t - u),
      Duration_String = (\<lambda>d. format_d d @ ''ns''),
      os_Stdout = buffer,
      os_Stderr = buffer\<rparr>"

text \<open>
  The start state holds three requests: at address 0 the request \<open>GET /about/\<close>, at
  address 1 a request for \<open>/a%0Ab\<close>, whose \<open>Path\<close> is the decoded form with a newline
  between \<open>a\<close> and \<open>b\<close>, and at address 2 a request whose \<open>URL\<close> is nil.
\<close>

definition start_state :: "testbed world" where
  "start_state =
     \<lparr>heap = (\<lambda>a. 0), next_addr = 0,
      requests = (\<lambda>a. \<lparr>URL = None\<rparr>)(0 := \<lparr>URL = Some 0\<rparr>, 1 := \<lparr>URL = Some 1\<rparr>),
      urls = (\<lambda>b. \<lparr>Path = []\<rparr>)
               (0 := \<lparr>Path = ''/about/''\<rparr>, 1 := \<lparr>Path = ''/a'' @ [CHR 0x0A] @ ''b''\<rparr>),
      ext = \<lparr>codes = [], body = [], log_buffer = [], clock = 0, called = False\<rparr>\<rparr>"

text \<open>
  \<open>okHandler\<close>: \<open>called = true; w.WriteHeader(http.StatusOK)\<close>. Here the clock moves on
  by 250 nanoseconds while the handler runs.
\<close>

definition okHandler :: "testbed Handler" where
  "okHandler = HandlerFunc (\<lambda>w r \<sigma>.
     rw_WriteHeader w StatusOK
       (\<sigma>\<lparr>ext := (ext \<sigma>)\<lparr>called := True, clock := clock (ext \<sigma>) + 250\<rparr>\<rparr>))"

text \<open>\<open>doPanic\<close>: \<open>called = true; panic("bye bye")\<close>.\<close>

definition doPanic :: "testbed Handler" where
  "doPanic = HandlerFunc (\<lambda>w r \<sigma>.
     (Panic (AnyString ''bye bye''), \<sigma>\<lparr>ext := (ext \<sigma>)\<lparr>called := True\<rparr>\<rparr>))"

text \<open>A handler whose body is \<open>panic(nil)\<close>.\<close>

definition panicNil :: "testbed Handler" where
  "panicNil = HandlerFunc (\<lambda>w r \<sigma>. (Panic AnyNil, \<sigma>))"

text \<open>\<open>noopHandler\<close>: an empty body.\<close>

definition noopHandler :: "testbed Handler" where
  "noopHandler = HandlerFunc (\<lambda>w r \<sigma>. (Return (), \<sigma>))"

text \<open>
  A handler that answers 200 and moves the request: \<open>r.URL.Path = "/moved/"\<close>. The clock
  moves on by 250 nanoseconds while it runs.
\<close>

definition rewritePath :: "testbed Handler" where
  "rewritePath = HandlerFunc (\<lambda>w r \<sigma>.
     case r of
       None \<Rightarrow> (Panic nil_dereference, \<sigma>)
     | Some a \<Rightarrow>
         (case URL (requests \<sigma> a) of
            None \<Rightarrow> (Panic nil_dereference, \<sigma>)
          | Some b \<Rightarrow>
              rw_WriteHeader w StatusOK
                (\<sigma>\<lparr>urls := (urls \<sigma>)(b := \<lparr>Path = ''/moved/''\<rparr>),
                   ext := (ext \<sigma>)\<lparr>clock := clock (ext \<sigma>) + 250\<rparr>\<rparr>)))"

text \<open>A handler that answers 200 and drops the URL of the request: \<open>r.URL = nil\<close>.\<close>

definition dropURL :: "testbed Handler" where
  "dropURL = HandlerFunc (\<lambda>w r \<sigma>.
     case r of
       None \<Rightarrow> (Panic nil_dereference, \<sigma>)
     | Some a \<Rightarrow>
         rw_WriteHeader w StatusOK (\<sigma>\<lparr>requests := (requests \<sigma>)(a := \<lparr>URL = None\<rparr>)\<rparr>))"

text \<open>The three requests of the start state.\<close>

definition about_request :: Request_ptr where
  "about_request = Some 0"

definition newline_request :: Request_ptr where
  "newline_request = Some 1"

definition no_url_request :: Request_ptr where
  "no_url_request = Some 2"

text \<open>\<open>&statusResponseWriter{wrapped: record}\<close>, the first allocation in the start state.\<close>

definition statusWriter :: "testbed statusResponseWriter" where
  "statusWriter = \<lparr>wrapped = recorder, status_addr = 0\<rparr>"

text \<open>The constructor \<open>f\<close> of the registry's test: it returns its argument.\<close>

definition test_constructor :: "testbed constructor" where
  "test_constructor = (\<lambda>next. next)"

section \<open>Properties of statusResponseWriter\<close>

lemma setStatus_status:
  "status l (setStatus l c \<sigma>) = (if status l \<sigma> = 0 then c else status l \<sigma>)"
  by (simp add: setStatus_def status_def status_assign_def)

lemma setStatus_explicit:
  "setStatus l c \<sigma> = \<sigma>\<lparr>heap := (heap \<sigma>)(status_addr l := status l (setStatus l c \<sigma>))\<rparr>"
  by (simp add: setStatus_def status_def status_assign_def)

lemma WriteHeader_status:
  assumes "wrapped_keeps_status l"
  shows "status l (snd (WriteHeader l c \<sigma>)) = (if status l \<sigma> = 0 then c else status l \<sigma>)"
  using assms by (simp add: WriteHeader_def wrapped_keeps_status_def setStatus_status)

lemma Write_status:
  assumes "wrapped_keeps_status l"
  shows "status l (snd (Write l d \<sigma>)) = (if status l \<sigma> = 0 then StatusOK else status l \<sigma>)"
  using assms by (simp add: Write_def wrapped_keeps_status_def setStatus_status)

text \<open>
  After a sequence of calls that ran to its end, the field holds the first code that is
  not zero, if it was zero before.
\<close>

lemma WriteHeader_calls_status:
  assumes "wrapped_keeps_status l"
      and "fst (WriteHeader_calls l cs \<sigma>) = Return ()"
  shows "status l (snd (WriteHeader_calls l cs \<sigma>)) =
           (if status l \<sigma> = 0 then (case List.find (\<lambda>c. c \<noteq> 0) cs of None \<Rightarrow> 0 | Some c \<Rightarrow> c)
            else status l \<sigma>)"
  using assms(2)
proof (induction cs arbitrary: \<sigma>)
  case Nil
  then show ?case by simp
next
  case (Cons c cs)
  obtain res \<sigma>' where step: "WriteHeader l c \<sigma> = (res, \<sigma>')"
    by (cases "WriteHeader l c \<sigma>")
  with Cons.prems obtain u where res: "res = Return u"
    by (cases res) simp_all
  have st: "status l \<sigma>' = (if status l \<sigma> = 0 then c else status l \<sigma>)"
    using WriteHeader_status [OF assms(1), of c \<sigma>] step by simp
  have rest: "WriteHeader_calls l (c # cs) \<sigma> = WriteHeader_calls l cs \<sigma>'"
    using step res by simp
  with Cons.prems have "fst (WriteHeader_calls l cs \<sigma>') = Return ()"
    by simp
  from Cons.IH [OF this] rest st show ?case
    by simp
qed

text \<open>The writers of the examples leave the wrapper's field alone.\<close>

lemma recorder_keeps_status: "wrapped_keeps_status statusWriter"
  by (simp add: wrapped_keeps_status_def statusWriter_def recorder_def status_def)

lemma nil_keeps_status: "wrapped_keeps_status \<lparr>wrapped = nil_ResponseWriter, status_addr = a\<rparr>"
  by (simp add: wrapped_keeps_status_def nil_ResponseWriter_def status_def)

text \<open>So does a second wrapper, at another address, around a writer that does.\<close>

lemma nested_wrapper_keeps_status:
  assumes "status_addr l' \<noteq> status_addr l"
      and "wrapped_keeps_status \<lparr>wrapped = wrapped l', status_addr = status_addr l\<rparr>"
  shows "wrapped_keeps_status \<lparr>wrapped = as_ResponseWriter l', status_addr = status_addr l\<rparr>"
  using assms
  by (simp add: wrapped_keeps_status_def as_ResponseWriter_def WriteHeader_def Write_def
      setStatus_def status_def status_assign_def)

lemma new_statusResponseWriter_fresh:
  "status (fst (new_statusResponseWriter w \<sigma>)) (snd (new_statusResponseWriter w \<sigma>)) = 0"
  "wrapped (fst (new_statusResponseWriter w \<sigma>)) = w"
  by (simp_all add: new_statusResponseWriter_def status_def)

lemma statusWriter_fresh: "status statusWriter start_state = 0"
  by (simp add: status_def start_state_def)

lemma statusWriter_calls_0_404:
  "WriteHeader_calls statusWriter [0, 404] start_state =
     (Return (), start_state\<lparr>heap := (heap start_state)(0 := 404),
                              ext := (ext start_state)\<lparr>codes := [0, 404]\<rparr>\<rparr>)"
  by (simp add: WriteHeader_def setStatus_def status_def status_assign_def statusWriter_def
      recorder_def start_state_def)

text \<open>
  C1, as the claim states it, fails: on a fresh wrapper around the recorder the calls
  \<open>WriteHeader(0)\<close>, \<open>WriteHeader(404)\<close> both return, and \<open>GetStatus\<close> then yields 404,
  which is not the first code passed.
\<close>

theorem GetStatus_first_code_counterexample:
  "fst (WriteHeader_calls statusWriter [0, 404] start_state) = Return () \<and>
   GetStatus statusWriter (snd (WriteHeader_calls statusWriter [0, 404] start_state)) \<noteq> hd [0, 404]"
  unfolding statusWriter_calls_0_404
  by (simp add: GetStatus_def status_def statusWriter_def start_state_def)

text \<open>
  C1, amended: on a wrapper whose \<open>status\<close> is still zero (a fresh one), after any
  sequence of \<open>WriteHeader\<close> calls that all return, \<open>GetStatus\<close> yields the first code
  of the sequence that is not zero, whatever follows it; when there is none, and so for
  the empty sequence, it yields 200. The wrapped writer is any writer that does not
  assign the wrapper's field.
\<close>

theorem GetStatus_first_nonzero_code:
  assumes "wrapped_keeps_status l"
      and "status l \<sigma> = 0"
      and "WriteHeader_calls l cs \<sigma> = (Return (), \<sigma>')"
    shows "GetStatus l \<sigma>' = (case List.find (\<lambda>c. c \<noteq> 0) cs of None \<Rightarrow> StatusOK | Some c \<Rightarrow> c)"
proof -
  have "fst (WriteHeader_calls l cs \<sigma>) = Return ()"
    using assms(3) by simp
  from WriteHeader_calls_status [OF assms(1) this] assms(2,3)
  have "status l \<sigma>' = (case List.find (\<lambda>c. c \<noteq> 0) cs of None \<Rightarrow> 0 | Some c \<Rightarrow> c)"
    by simp
  then show ?thesis
    by (auto simp: GetStatus_def split: option.splits dest: find_Some_iff [THEN iffD1])
qed

theorem GetStatus_first_nonzero_code_witness:
  "wrapped_keeps_status statusWriter \<and> status statusWriter start_state = 0 \<and>
   WriteHeader_calls statusWriter [0, 404] start_state =
     (Return (), start_state\<lparr>heap := (heap start_state)(0 := 404),
                              ext := (ext start_state)\<lparr>codes := [0, 404]\<rparr>\<rparr>) \<and>
   GetStatus statusWriter (start_state\<lparr>heap := (heap start_state)(0 := 404),
                              ext := (ext start_state)\<lparr>codes := [0, 404]\<rparr>\<rparr>) = 404"
proof -
  from GetStatus_first_nonzero_code
    [OF recorder_keeps_status statusWriter_fresh statusWriter_calls_0_404]
  show ?thesis
    using recorder_keeps_status statusWriter_fresh statusWriter_calls_0_404 by simp
qed

text \<open>
  C10: on a wrapper whose \<open>status\<close> is zero, \<open>WriteHeader(0)\<close> latches nothing: the field
  stays zero and \<open>GetStatus\<close> still yields 200. The next call decides: a \<open>WriteHeader(c)\<close>
  leaves \<open>c\<close> in the field, a \<open>Write\<close> leaves 200. A first code other than zero is kept
  against a later call.
\<close>

theorem zero_code_is_not_latched:
  assumes "wrapped_keeps_status l"
      and "status l \<sigma> = 0"
  shows "status l (snd (WriteHeader l 0 \<sigma>)) = 0 \<and>
         GetStatus l (snd (WriteHeader l 0 \<sigma>)) = 200 \<and>
         status l (snd (WriteHeader l c (snd (WriteHeader l 0 \<sigma>)))) = c \<and>
         status l (snd (Write l d (snd (WriteHeader l 0 \<sigma>)))) = 200 \<and>
         status l (snd (WriteHeader l c' (snd (WriteHeader l c \<sigma>)))) = (if c = 0 then c' else c)"
  using assms
  by (simp add: WriteHeader_status Write_status GetStatus_def StatusOK_def)

theorem zero_code_is_not_latched_witness:
  "wrapped_keeps_status statusWriter \<and> status statusWriter start_state = 0 \<and>
   status statusWriter (snd (WriteHeader statusWriter 0 start_state)) = 0 \<and>
   GetStatus statusWriter (snd (WriteHeader statusWriter 0 start_state)) = 200 \<and>
   status statusWriter
     (snd (WriteHeader statusWriter 404 (snd (WriteHeader statusWriter 0 start_state)))) = 404 \<and>
   status statusWriter
     (snd (Write statusWriter ''Hello World!'' (snd (WriteHeader statusWriter 0 start_state)))) = 200 \<and>
   status statusWriter
     (snd (WriteHeader statusWriter 409 (snd (WriteHeader statusWriter 403 start_state)))) = 403"
  using zero_code_is_not_latched
    [OF recorder_keeps_status statusWriter_fresh, of 404 "''Hello World!''" 409]
    zero_code_is_not_latched
    [OF recorder_keeps_status statusWriter_fresh, of 403 "''Hello World!''" 409]
    recorder_keeps_status statusWriter_fresh
  by simp

text \<open>
  C6: \<open>Write\<close> passes the same bytes to the wrapped writer and returns what that call
  returns (or panics as it panics). The wrapped writer is called in a state that differs
  from the caller's in the wrapper's \<open>status\<close> only, which by then holds 200 if it was
  zero, and its old value otherwise.
\<close>

theorem Write_records_default_then_forwards:
  "\<exists>\<sigma>1. Write l data \<sigma> = rw_Write (wrapped l) data \<sigma>1 \<and>
         status l \<sigma>1 = (if status l \<sigma> = 0 then 200 else status l \<sigma>) \<and>
         \<sigma>1 = \<sigma>\<lparr>heap := (heap \<sigma>)(status_addr l := status l \<sigma>1)\<rparr>"
proof (intro exI conjI)
  show "Write l data \<sigma> = rw_Write (wrapped l) data (setStatus l StatusOK \<sigma>)"
    by (simp add: Write_def)
  show "status l (setStatus l StatusOK \<sigma>) = (if status l \<sigma> = 0 then 200 else status l \<sigma>)"
    by (simp add: setStatus_status StatusOK_def)
  show "setStatus l StatusOK \<sigma> =
          \<sigma>\<lparr>heap := (heap \<sigma>)(status_addr l := status l (setStatus l StatusOK \<sigma>))\<rparr>"
    by (rule setStatus_explicit)
qed

text \<open>
  The package's test of \<open>Write\<close>: the recorder's body holds the bytes written, the call
  returns their number and no error, and the status is 200.
\<close>

lemma Write_Hello_World:
  "Write statusWriter ''Hello World!'' start_state =
     (Return (12, None),
      start_state\<lparr>heap := (heap start_state)(0 := 200),
                   ext := (ext start_state)\<lparr>body := ''Hello World!''\<rparr>\<rparr>)"
  by (simp add: Write_def setStatus_def status_def status_assign_def statusWriter_def
      recorder_def start_state_def StatusOK_def)

text \<open>
  C8: \<open>WriteHeader\<close> calls the wrapped writer's \<open>WriteHeader\<close> with the same code in every
  state, whether a status is recorded or not. The state it passes on differs from the
  caller's in the wrapper's \<open>status\<close> only, and that field changes only if it was zero.
\<close>

theorem WriteHeader_always_forwards:
  "\<exists>\<sigma>1. WriteHeader l statusValue \<sigma> = rw_WriteHeader (wrapped l) statusValue \<sigma>1 \<and>
         status l \<sigma>1 = (if status l \<sigma> = 0 then statusValue else status l \<sigma>) \<and>
         \<sigma>1 = \<sigma>\<lparr>heap := (heap \<sigma>)(status_addr l := status l \<sigma>1)\<rparr>"
proof (intro exI conjI)
  show "WriteHeader l statusValue \<sigma> =
          rw_WriteHeader (wrapped l) statusValue (setStatus l statusValue \<sigma>)"
    by (simp add: WriteHeader_def)
  show "status l (setStatus l statusValue \<sigma>) =
          (if status l \<sigma> = 0 then statusValue else status l \<sigma>)"
    by (rule setStatus_status)
  show "setStatus l statusValue \<sigma> =
          \<sigma>\<lparr>heap := (heap \<sigma>)(status_addr l := status l (setStatus l statusValue \<sigma>))\<rparr>"
    by (rule setStatus_explicit)
qed

text \<open>Seen from the recorder: it receives every code of a sequence of calls, in order.\<close>

lemma recorder_receives_every_code:
  "fst (WriteHeader_calls statusWriter cs \<sigma>) = Return () \<and>
   codes (ext (snd (WriteHeader_calls statusWriter cs \<sigma>))) = codes (ext \<sigma>) @ cs"
proof (induction cs arbitrary: \<sigma>)
  case Nil
  show ?case by simp
next
  case (Cons c cs)
  have step: "WriteHeader statusWriter c \<sigma> =
      (Return (), (setStatus statusWriter c \<sigma>)
         \<lparr>ext := (ext (setStatus statusWriter c \<sigma>))
                   \<lparr>codes := codes (ext (setStatus statusWriter c \<sigma>)) @ [c]\<rparr>\<rparr>)"
    by (simp add: WriteHeader_def statusWriter_def recorder_def)
  have "ext (setStatus statusWriter c \<sigma>) = ext \<sigma>"
    by (simp add: setStatus_def status_assign_def)
  with Cons.IH step show ?case
    by simp
qed

section \<open>Properties of the registry\<close>

text \<open>\<open>Register\<close> changes no entry that is there, and stores no nil function.\<close>

lemma Register_keeps_entries:
  "reg k = Some g \<Longrightarrow> snd (Register key f reg) k = Some g"
  by (auto simp: Register_def)

lemma Register_stores_no_nil:
  "NilFunc \<notin> ran reg \<Longrightarrow> NilFunc \<notin> ran (snd (Register key f reg))"
  by (auto simp: Register_def ran_def)

text \<open>
  \<open>init\<close> is up to three calls of \<open>Register\<close>; the registry it leaves is the one after
  the first, the second or the third of them.
\<close>

lemma init_keeps_entries:
  assumes "reg k = Some g"
  shows "snd (init lib reg) k = Some g"
proof -
  let ?r1 = "snd (Register ''middleware.Panic'' (FuncValue NewPanicMiddleware) reg)"
  let ?r2 = "snd (Register ''middleware.LoggingStdOut''
                 (FuncValue (NewLoggingMiddleware lib (os_Stdout lib))) ?r1)"
  let ?r3 = "snd (Register ''middleware.LoggingStdErr''
                 (FuncValue (NewLoggingMiddleware lib (os_Stderr lib))) ?r2)"
  have 1: "?r1 k = Some g" using assms by (rule Register_keeps_entries)
  then have 2: "?r2 k = Some g" by (rule Register_keeps_entries)
  then have 3: "?r3 k = Some g" by (rule Register_keeps_entries)
  have "snd (init lib reg) = ?r1 \<or> snd (init lib reg) = ?r2 \<or> snd (init lib reg) = ?r3"
    by (simp add: init_def and_then_def split: prod.splits result.splits)
  with 1 2 3 show ?thesis by auto
qed

lemma init_stores_no_nil:
  assumes "NilFunc \<notin> ran reg"
  shows "NilFunc \<notin> ran (snd (init lib reg))"
proof -
  let ?r1 = "snd (Register ''middleware.Panic'' (FuncValue NewPanicMiddleware) reg)"
  let ?r2 = "snd (Register ''middleware.LoggingStdOut''
                 (FuncValue (NewLoggingMiddleware lib (os_Stdout lib))) ?r1)"
  let ?r3 = "snd (Register ''middleware.LoggingStdErr''
                 (FuncValue (NewLoggingMiddleware lib (os_Stderr lib))) ?r2)"
  have 1: "NilFunc \<notin> ran ?r1" using assms by (rule Register_stores_no_nil)
  then have 2: "NilFunc \<notin> ran ?r2" by (rule Register_stores_no_nil)
  then have 3: "NilFunc \<notin> ran ?r3" by (rule Register_stores_no_nil)
  have "snd (init lib reg) = ?r1 \<or> snd (init lib reg) = ?r2 \<or> snd (init lib reg) = ?r3"
    by (simp add: init_def and_then_def split: prod.splits result.splits)
  with 1 2 3 show ?thesis by auto
qed

lemma registry_after_keeps_entries:
  "reg k = Some g \<Longrightarrow> registry_after lib x reg k = Some g"
  by (cases x) (simp_all add: Register_keeps_entries init_keeps_entries)

lemma registry_after_stores_no_nil:
  "NilFunc \<notin> ran reg \<Longrightarrow> NilFunc \<notin> ran (registry_after lib x reg)"
  by (cases x) (simp_all add: Register_stores_no_nil init_stores_no_nil)

lemma registry_after_all_keeps_entries:
  "reg k = Some g \<Longrightarrow> registry_after_all lib xs reg k = Some g"
  by (induction xs arbitrary: reg) (simp_all add: registry_after_keeps_entries)

lemma registry_after_all_stores_no_nil:
  "NilFunc \<notin> ran reg \<Longrightarrow> NilFunc \<notin> ran (registry_after_all lib xs reg)"
  by (induction xs arbitrary: reg) (simp_all add: registry_after_stores_no_nil)

text \<open>The registry when the program starts.\<close>

lemma bootstrap_registry:
  "bootstrap lib =
     (Return (),
      [''middleware.Panic'' \<mapsto> FuncValue NewPanicMiddleware,
       ''middleware.LoggingStdOut'' \<mapsto> FuncValue (NewLoggingMiddleware lib (os_Stdout lib)),
       ''middleware.LoggingStdErr'' \<mapsto> FuncValue (NewLoggingMiddleware lib (os_Stderr lib))])"
  by (simp add: bootstrap_def init_def and_then_def Register_def)

lemma bootstrap_stores_no_nil: "NilFunc \<notin> ran (snd (bootstrap lib))"
  unfolding bootstrap_def by (rule init_stores_no_nil) simp

text \<open>
  C3: \<open>Register\<close> with a nil function returns and leaves the registry as it is, also
  when it is repeated under the same key. With a function that is not nil it panics,
  the registry unchanged, when the key is present (in particular when the key holds that
  very function), and it stores the pair when the key is absent.
\<close>

theorem Register_contract:
  "Register key NilFunc reg = (Return (), reg) \<and>
   Register key NilFunc (snd (Register key NilFunc reg)) = (Return (), reg) \<and>
   (f \<noteq> NilFunc \<and> reg key \<noteq> None \<longrightarrow>
      Register key f reg = (Panic (AnyString ''Middleware registry key reused''), reg)) \<and>
   (f \<noteq> NilFunc \<and> reg key = Some f \<longrightarrow>
      Register key f reg = (Panic (AnyString ''Middleware registry key reused''), reg)) \<and>
   (f \<noteq> NilFunc \<and> reg key = None \<longrightarrow> Register key f reg = (Return (), reg(key \<mapsto> f)))"
  by (auto simp: Register_def)

theorem Register_contract_witness:
  "Register ''noop'' (NilFunc :: testbed constructor func) Map.empty = (Return (), Map.empty) \<and>
   FuncValue test_constructor \<noteq> NilFunc \<and>
   [''nillHandler'' \<mapsto> FuncValue test_constructor] ''nillHandler'' = Some (FuncValue test_constructor) \<and>
   Register ''nillHandler'' (FuncValue test_constructor) [''nillHandler'' \<mapsto> FuncValue test_constructor] =
     (Panic (AnyString ''Middleware registry key reused''), [''nillHandler'' \<mapsto> FuncValue test_constructor]) \<and>
   (Map.empty :: testbed constructor registry) ''nillHandler'' = None \<and>
   Register ''nillHandler'' (FuncValue test_constructor) Map.empty =
     (Return (), [''nillHandler'' \<mapsto> FuncValue test_constructor])"
  using Register_contract [of "''noop''" "Map.empty :: testbed constructor registry" NilFunc]
    Register_contract [of "''nillHandler''" "[''nillHandler'' \<mapsto> FuncValue test_constructor]"
      "FuncValue test_constructor"]
    Register_contract [of "''nillHandler''" "Map.empty :: testbed constructor registry"
      "FuncValue test_constructor"]
  by simp

text \<open>
  C4, as the claim states it, fails for the empty key: \<open>Register\<close> accepts the empty
  string as a key like any other, and after that \<open>Get("")\<close> finds the constructor and
  \<open>MustGet("")\<close> returns it.
\<close>

theorem Get_empty_key_counterexample:
  "Register '''' (FuncValue test_constructor) Map.empty = (Return (), ['''' \<mapsto> FuncValue test_constructor]) \<and>
   Get '''' ['''' \<mapsto> FuncValue test_constructor] = (FuncValue test_constructor, True) \<and>
   Get '''' ['''' \<mapsto> FuncValue test_constructor] \<noteq> (NilFunc, False) \<and>
   MustGet '''' ['''' \<mapsto> FuncValue test_constructor] = Return (FuncValue test_constructor)"
  by (simp add: Register_def Get_def MustGet_def)

text \<open>
  C4, amended: once \<open>Register\<close> has stored a constructor under a key, \<open>Get\<close> yields that
  constructor and \<open>true\<close>, and \<open>MustGet\<close> returns it, after any further operations on
  the registry. For a key that is absent from the registry \<open>Get\<close> yields nil and
  \<open>false\<close> and does not panic, and \<open>MustGet\<close> panics. The empty string is a key like
  any other: it is absent until it is registered.
\<close>

theorem Get_MustGet_contract:
  "(Register key (FuncValue f) reg = (Return (), reg') \<longrightarrow>
      Get key (registry_after_all lib ops reg') = (FuncValue f, True) \<and>
      MustGet key (registry_after_all lib ops reg') = Return (FuncValue f)) \<and>
   (reg key = Some (FuncValue f) \<longrightarrow> Get key reg = (FuncValue f, True) \<and> MustGet key reg = Return (FuncValue f)) \<and>
   (reg key = None \<longrightarrow>
      Get key reg = (NilFunc, False) \<and>
      MustGet key reg = Panic (AnyString ''Invalid middleware requested''))"
proof (intro conjI impI)
  assume "Register key (FuncValue f) reg = (Return (), reg')"
  then have "reg' key = Some (FuncValue f)"
    by (auto simp: Register_def split: if_splits)
  then have *: "registry_after_all lib ops reg' key = Some (FuncValue f)"
    by (rule registry_after_all_keeps_entries)
  show "Get key (registry_after_all lib ops reg') = (FuncValue f, True)"
    using * by (simp add: Get_def)
  show "MustGet key (registry_after_all lib ops reg') = Return (FuncValue f)"
    using * by (simp add: MustGet_def)
next
  assume "reg key = Some (FuncValue f)"
  then show "Get key reg = (FuncValue f, True)" "MustGet key reg = Return (FuncValue f)"
    by (simp_all add: Get_def MustGet_def)
next
  assume "reg key = None"
  then show "Get key reg = (NilFunc, False)"
    "MustGet key reg = Panic (AnyString ''Invalid middleware requested'')"
    by (simp_all add: Get_def MustGet_def)
qed

theorem Get_MustGet_contract_witness:
  "Register ''nillHandler'' (FuncValue test_constructor) Map.empty =
     (Return (), [''nillHandler'' \<mapsto> FuncValue test_constructor]) \<and>
   Get ''nillHandler''
     (registry_after_all test_lib [OpRegister ''nillHandler'' (FuncValue NewPanicMiddleware), OpInit]
        [''nillHandler'' \<mapsto> FuncValue test_constructor]) = (FuncValue test_constructor, True) \<and>
   MustGet ''nillHandler''
     (registry_after_all test_lib [OpRegister ''nillHandler'' (FuncValue NewPanicMiddleware), OpInit]
        [''nillHandler'' \<mapsto> FuncValue test_constructor]) = Return (FuncValue test_constructor) \<and>
   [''nillHandler'' \<mapsto> FuncValue test_constructor] ''nillHandler'' = Some (FuncValue test_constructor) \<and>
   Get ''nillHandler'' [''nillHandler'' \<mapsto> FuncValue test_constructor] = (FuncValue test_constructor, True) \<and>
   MustGet ''nillHandler'' [''nillHandler'' \<mapsto> FuncValue test_constructor] =
     Return (FuncValue test_constructor) \<and>
   [''nillHandler'' \<mapsto> FuncValue test_constructor] ''non-existant'' = None \<and>
   Get ''non-existant'' [''nillHandler'' \<mapsto> FuncValue test_constructor] = (NilFunc, False) \<and>
   MustGet ''non-existant'' [''nillHandler'' \<mapsto> FuncValue test_constructor] =
     Panic (AnyString ''Invalid middleware requested'')"
proof -
  have reg: "Register ''nillHandler'' (FuncValue test_constructor) Map.empty =
     (Return (), [''nillHandler'' \<mapsto> FuncValue test_constructor])"
    by (simp add: Register_def)
  have present: "[''nillHandler'' \<mapsto> FuncValue test_constructor] ''nillHandler'' =
      Some (FuncValue test_constructor)"
    by simp
  have absent: "[''nillHandler'' \<mapsto> FuncValue test_constructor] ''non-existant'' = None"
    by simp
  from Get_MustGet_contract [of "''nillHandler''" test_constructor Map.empty
      "[''nillHandler'' \<mapsto> FuncValue test_constructor]" test_lib
      "[OpRegister ''nillHandler'' (FuncValue NewPanicMiddleware), OpInit]"]
    Get_MustGet_contract [of "''nillHandler''" test_constructor
      "[''nillHandler'' \<mapsto> FuncValue test_constructor]"
      "[''nillHandler'' \<mapsto> FuncValue test_constructor]" test_lib "[]"]
    Get_MustGet_contract [of "''non-existant''" test_constructor
      "[''nillHandler'' \<mapsto> FuncValue test_constructor]"
      "[''nillHandler'' \<mapsto> FuncValue test_constructor]" test_lib "[]"]
    reg present absent
  show ?thesis by blast
qed

text \<open>
  C5: through any sequence of \<open>Register\<close>, \<open>Get\<close>, \<open>MustGet\<close> and \<open>init\<close>, an entry of
  the registry stays what it is (it is neither overwritten nor deleted), and a registry
  that holds no nil function holds none afterwards; so the registry never holds one
  after it started from \<open>init\<close> on the empty map.
\<close>

theorem registry_invariant:
  "(reg key = Some f \<longrightarrow> registry_after_all lib ops reg key = Some f) \<and>
   (NilFunc \<notin> ran reg \<longrightarrow> NilFunc \<notin> ran (registry_after_all lib ops reg)) \<and>
   NilFunc \<notin> ran (registry_after_all lib ops (snd (bootstrap lib)))"
  by (simp add: registry_after_all_keeps_entries registry_after_all_stores_no_nil
      bootstrap_stores_no_nil)

theorem registry_invariant_witness:
  "[''nillHandler'' \<mapsto> FuncValue test_constructor] ''nillHandler'' = Some (FuncValue test_constructor) \<and>
   registry_after_all test_lib
     [OpRegister ''nillHandler'' (FuncValue NewPanicMiddleware), OpRegister ''noop'' NilFunc,
      OpGet [], OpMustGet ''non-existant'', OpInit]
     [''nillHandler'' \<mapsto> FuncValue test_constructor] ''nillHandler'' = Some (FuncValue test_constructor) \<and>
   NilFunc \<notin> ran [''nillHandler'' \<mapsto> FuncValue test_constructor] \<and>
   NilFunc \<notin> ran (registry_after_all test_lib
     [OpRegister ''nillHandler'' (FuncValue NewPanicMiddleware), OpRegister ''noop'' NilFunc,
      OpGet [], OpMustGet ''non-existant'', OpInit]
     [''nillHandler'' \<mapsto> FuncValue test_constructor])"
proof -
  have present: "[''nillHandler'' \<mapsto> FuncValue test_constructor] ''nillHandler'' =
      Some (FuncValue test_constructor)"
    by simp
  have no_nil: "NilFunc \<notin> ran [''nillHandler'' \<mapsto> FuncValue test_constructor]"
    by simp
  from registry_invariant [of "[''nillHandler'' \<mapsto> FuncValue test_constructor]" "''nillHandler''"
      "FuncValue test_constructor" test_lib
      "[OpRegister ''nillHandler'' (FuncValue NewPanicMiddleware), OpRegister ''noop'' NilFunc,
        OpGet [], OpMustGet ''non-existant'', OpInit]"]
    present no_nil
  show ?thesis by blast
qed

text \<open>
  C9: \<open>init\<close> on the empty map returns, and then \<open>Get\<close> finds under each of the three
  keys a constructor that is not nil: \<open>NewPanicMiddleware\<close>, the logger to \<open>os.Stdout\<close>
  and the logger to \<open>os.Stderr\<close>. Each of them yields a handler that is not nil for
  every handler it is applied to.
\<close>

theorem bootstrap_keys:
  "fst (bootstrap lib) = Return () \<and>
   Get ''middleware.Panic'' (snd (bootstrap lib)) = (FuncValue NewPanicMiddleware, True) \<and>
   Get ''middleware.LoggingStdOut'' (snd (bootstrap lib)) =
     (FuncValue (NewLoggingMiddleware lib (os_Stdout lib)), True) \<and>
   Get ''middleware.LoggingStdErr'' (snd (bootstrap lib)) =
     (FuncValue (NewLoggingMiddleware lib (os_Stderr lib)), True) \<and>
   (\<forall>chain. NewPanicMiddleware chain \<noteq> NilHandler \<and>
            NewLoggingMiddleware lib (os_Stdout lib) chain \<noteq> NilHandler \<and>
            NewLoggingMiddleware lib (os_Stderr lib) chain \<noteq> NilHandler)"
  by (simp add: bootstrap_registry Get_def NewPanicMiddleware_def NewLoggingMiddleware_def)

section \<open>Properties of the middleware\<close>

lemma format_d_200: "format_d 200 = ''200''"
  by (simp add: format_d_def nat_digits.simps digit_char_def)

lemma format_d_250: "format_d 250 = ''250''"
  by (simp add: format_d_def nat_digits.simps digit_char_def)

text \<open>
  C2, as the claim states it, fails. A handler that panics with a nil value is stopped,
  but \<open>recover\<close> returns nil, the guard \<open>r != nil\<close> is false and the recorder receives
  no \<open>WriteHeader(500)\<close>. And the call \<open>w.WriteHeader(500)\<close> is made inside the deferred
  function with nothing around it: on a nil writer it panics, and this panic leaves the
  handler.
\<close>

theorem NewPanicMiddleware_counterexample:
  "ServeHTTP panicNil recorder None start_state = (Panic AnyNil, start_state) \<and>
   ServeHTTP (NewPanicMiddleware panicNil) recorder None start_state = (Return (), start_state) \<and>
   codes (ext start_state) = [] \<and>
   ServeHTTP (NewPanicMiddleware doPanic) nil_ResponseWriter None start_state =
     (Panic nil_dereference, start_state\<lparr>ext := (ext start_state)\<lparr>called := True\<rparr>\<rparr>)"
  by (simp add: NewPanicMiddleware_def panicNil_def doPanic_def nil_ResponseWriter_def
      start_state_def)

text \<open>
  C2, amended: when the inner handler panics with a value that is not nil, the handler
  of \<open>NewPanicMiddleware\<close> stops the panic and calls \<open>WriteHeader(500)\<close> on the writer,
  in the state the inner handler left; the outcome of that call is the outcome of the
  handler, so that the handler returns when the call returns. When the inner handler
  returns, the handler returns in the state the inner handler left.
\<close>

theorem NewPanicMiddleware_contract:
  "(ServeHTTP chain w r \<sigma> = (Panic v, \<sigma>') \<and> v \<noteq> AnyNil \<longrightarrow>
      ServeHTTP (NewPanicMiddleware chain) w r \<sigma> = rw_WriteHeader w 500 \<sigma>') \<and>
   (ServeHTTP chain w r \<sigma> = (Panic v, \<sigma>') \<and> v \<noteq> AnyNil \<and>
    rw_WriteHeader w 500 \<sigma>' = (Return (), \<sigma>'') \<longrightarrow>
      ServeHTTP (NewPanicMiddleware chain) w r \<sigma> = (Return (), \<sigma>'')) \<and>
   (ServeHTTP chain w r \<sigma> = (Return (), \<sigma>') \<longrightarrow>
      ServeHTTP (NewPanicMiddleware chain) w r \<sigma> = (Return (), \<sigma>'))"
  by (simp add: NewPanicMiddleware_def)

theorem NewPanicMiddleware_contract_witness:
  "ServeHTTP doPanic recorder None start_state =
     (Panic (AnyString ''bye bye''), start_state\<lparr>ext := (ext start_state)\<lparr>called := True\<rparr>\<rparr>) \<and>
   AnyString ''bye bye'' \<noteq> AnyNil \<and>
   rw_WriteHeader recorder 500 (start_state\<lparr>ext := (ext start_state)\<lparr>called := True\<rparr>\<rparr>) =
     (Return (), start_state\<lparr>ext := (ext start_state)\<lparr>called := True, codes := [500]\<rparr>\<rparr>) \<and>
   ServeHTTP (NewPanicMiddleware doPanic) recorder None start_state =
     (Return (), start_state\<lparr>ext := (ext start_state)\<lparr>called := True, codes := [500]\<rparr>\<rparr>) \<and>
   ServeHTTP noopHandler recorder None start_state = (Return (), start_state) \<and>
   ServeHTTP (NewPanicMiddleware noopHandler) recorder None start_state = (Return (), start_state)"
proof -
  have panics: "ServeHTTP doPanic recorder None start_state =
     (Panic (AnyString ''bye bye''), start_state\<lparr>ext := (ext start_state)\<lparr>called := True\<rparr>\<rparr>)"
    by (simp add: doPanic_def)
  have header: "rw_WriteHeader recorder 500 (start_state\<lparr>ext := (ext start_state)\<lparr>called := True\<rparr>\<rparr>) =
     (Return (), start_state\<lparr>ext := (ext start_state)\<lparr>called := True, codes := [500]\<rparr>\<rparr>)"
    by (simp add: recorder_def start_state_def)
  have returns: "ServeHTTP noopHandler recorder None start_state = (Return (), start_state)"
    by (simp add: noopHandler_def)
  from NewPanicMiddleware_contract [of doPanic recorder None start_state "AnyString ''bye bye''"
      "start_state\<lparr>ext := (ext start_state)\<lparr>called := True\<rparr>\<rparr>"
      "start_state\<lparr>ext := (ext start_state)\<lparr>called := True, codes := [500]\<rparr>\<rparr>"]
    NewPanicMiddleware_contract [of noopHandler recorder None start_state AnyNil start_state
      start_state]
    panics header returns
  show ?thesis by simp
qed

text \<open>The digits of \<open>%d\<close> hold no newline.\<close>

lemma digit_char_no_newline: "n < 10 \<Longrightarrow> digit_char n \<noteq> CHR 0x0A"
proof -
  assume "n < 10"
  then have "n \<in> {0, 1, 2, 3, 4, 5, 6, 7, 8, 9}"
    by auto
  then show ?thesis
    by (auto simp: digit_char_def)
qed

lemma nat_digits_no_newline: "CHR 0x0A \<notin> set (nat_digits n)"
proof (induction n rule: nat_digits.induct)
  case (1 n)
  show ?case
  proof (cases "n < 10")
    case True
    then show ?thesis
      using digit_char_no_newline [of n] by (simp add: nat_digits.simps [of n])
  next
    case False
    have "n mod 10 < 10" by simp
    from digit_char_no_newline [OF this] "1.IH" [OF False] False show ?thesis
      by (simp add: nat_digits.simps [of n])
  qed
qed

lemma format_d_no_newline: "CHR 0x0A \<notin> set (format_d i)"
  by (simp add: format_d_def nat_digits_no_newline)

text \<open>The definitions that the examples of the logging middleware unfold.\<close>

lemmas logging_example_defs =
  NewLoggingMiddleware_def new_statusResponseWriter_def test_lib_def and_then_def
  start_state_def as_ResponseWriter_def WriteHeader_def setStatus_def status_def
  status_assign_def recorder_def buffer_def StatusOK_def URL_Path_def GetStatus_def
  Sprintf_d_s_v_def about_request_def newline_request_def no_url_request_def

text \<open>
  C7, as the claim states it, fails: not every invocation writes one line. When the
  inner handler panics, the panic leaves the logging handler at the call of
  \<open>chain.ServeHTTP\<close> and the statements after it do not run; when the request is nil, the
  inner handler runs and \<open>r.URL.Path\<close> panics before \<open>out.Write\<close>: in both cases the log
  buffer stays empty. And for the request whose path holds a newline the bytes written
  hold two newlines, which makes two lines.
\<close>

theorem NewLoggingMiddleware_one_line_counterexample:
  "ServeHTTP (NewLoggingMiddleware test_lib buffer doPanic) recorder about_request start_state =
     (Panic (AnyString ''bye bye''),
      start_state\<lparr>heap := (heap start_state)(0 := 0), next_addr := 1,
                   ext := (ext start_state)\<lparr>called := True\<rparr>\<rparr>) \<and>
   ServeHTTP (NewLoggingMiddleware test_lib buffer okHandler) recorder None start_state =
     (Panic nil_dereference,
      start_state\<lparr>heap := (heap start_state)(0 := 200), next_addr := 1,
                   ext := \<lparr>codes = [200], body = [], log_buffer = [], clock = 250,
                           called = True\<rparr>\<rparr>) \<and>
   ServeHTTP (NewLoggingMiddleware test_lib buffer okHandler) recorder newline_request start_state =
     (Return (),
      start_state\<lparr>heap := (heap start_state)(0 := 200), next_addr := 1,
                   ext := \<lparr>codes = [200], body = [],
                           log_buffer = ''200 /a'' @ [CHR 0x0A] @ ''b 250ns'' @ [CHR 0x0A],
                           clock = 250, called = True\<rparr>\<rparr>) \<and>
   length (filter (\<lambda>c. c = CHR 0x0A)
     (log_buffer (ext (snd (ServeHTTP (NewLoggingMiddleware test_lib buffer okHandler) recorder
        newline_request start_state))))) = 2"
  by (simp add: logging_example_defs okHandler_def doPanic_def format_d_200 format_d_250)

text \<open>
  C7, amended: every invocation builds a new wrapper \<open>l\<close> around the caller's writer,
  its \<open>status\<close> zero, reads the clock and calls the inner handler with \<open>l\<close> as its writer.
  If the inner handler panics, the handler panics with the same value in the state the
  inner handler left: nothing is written to \<open>out\<close>. If it returns, the handler reads
  the clock again and evaluates \<open>r.URL.Path\<close> in the state reached; if \<open>r\<close> or \<open>r.URL\<close>
  is nil there, the handler panics with a nil dereference in that state, and again
  nothing is written. Otherwise it makes one call of \<open>out.Write\<close>, with the bytes
  \<open>code path duration\<close> and a newline, where \<open>code\<close> is \<open>l.GetStatus()\<close>, \<open>path\<close> is the
  path the request has after the inner handler ran and \<open>duration\<close> is the rendering of
  \<open>end.Sub(start)\<close>; the handler ends as that call ends, the values \<open>out.Write\<close>
  returns being dropped. These bytes are one line, that is, the newline at the end is
  their only one, when neither the path nor the rendering of the duration holds a newline.
\<close>

theorem NewLoggingMiddleware_logs_one_line:
  assumes "new_statusResponseWriter w \<sigma> = (l, \<sigma>1)"
      and "time_Now lib \<sigma>1 = (start, \<sigma>2)"
      and "ServeHTTP chain (as_ResponseWriter l) r \<sigma>2 = (res, \<sigma>3)"
      and "time_Now lib \<sigma>3 = (end, \<sigma>4)"
  shows "wrapped l = w \<and> status l \<sigma>1 = 0 \<and>
         (res = Panic v \<longrightarrow>
            ServeHTTP (NewLoggingMiddleware lib out chain) w r \<sigma> = (Panic v, \<sigma>3)) \<and>
         (res = Return () \<and> r = None \<longrightarrow>
            ServeHTTP (NewLoggingMiddleware lib out chain) w r \<sigma> = (Panic nil_dereference, \<sigma>4)) \<and>
         (res = Return () \<and> r = Some a \<and> URL (requests \<sigma>4 a) = None \<longrightarrow>
            ServeHTTP (NewLoggingMiddleware lib out chain) w r \<sigma> = (Panic nil_dereference, \<sigma>4)) \<and>
         (res = Return () \<and> r = Some a \<and> URL (requests \<sigma>4 a) = Some b \<longrightarrow>
            ServeHTTP (NewLoggingMiddleware lib out chain) w r \<sigma> =
              (case io_Write out
                      (format_d (GetStatus l \<sigma>4) @ '' '' @ Path (urls \<sigma>4 b) @ '' '' @
                       Duration_String lib (time_Sub lib end start) @ [CHR 0x0A]) \<sigma>4 of
                 (Return n, \<sigma>5) \<Rightarrow> (Return (), \<sigma>5)
               | (Panic v, \<sigma>5) \<Rightarrow> (Panic v, \<sigma>5))) \<and>
         (CHR 0x0A \<notin> set (Path (urls \<sigma>4 b)) \<and>
          CHR 0x0A \<notin> set (Duration_String lib (time_Sub lib end start)) \<longrightarrow>
            CHR 0x0A \<notin> set (format_d (GetStatus l \<sigma>4) @ '' '' @ Path (urls \<sigma>4 b) @ '' '' @
                              Duration_String lib (time_Sub lib end start)))"
proof (intro conjI impI)
  from new_statusResponseWriter_fresh [of w \<sigma>] assms(1)
  show "wrapped l = w" and "status l \<sigma>1 = 0"
    by simp_all
next
  assume "res = Panic v"
  with assms show "ServeHTTP (NewLoggingMiddleware lib out chain) w r \<sigma> = (Panic v, \<sigma>3)"
    by (simp add: NewLoggingMiddleware_def and_then_def)
next
  assume "res = Return () \<and> r = None"
  with assms
  show "ServeHTTP (NewLoggingMiddleware lib out chain) w r \<sigma> = (Panic nil_dereference, \<sigma>4)"
    by (simp add: NewLoggingMiddleware_def and_then_def URL_Path_def)
next
  assume "res = Return () \<and> r = Some a \<and> URL (requests \<sigma>4 a) = None"
  with assms
  show "ServeHTTP (NewLoggingMiddleware lib out chain) w r \<sigma> = (Panic nil_dereference, \<sigma>4)"
    by (simp add: NewLoggingMiddleware_def and_then_def URL_Path_def)
next
  assume "res = Return () \<and> r = Some a \<and> URL (requests \<sigma>4 a) = Some b"
  with assms
  show "ServeHTTP (NewLoggingMiddleware lib out chain) w r \<sigma> =
              (case io_Write out
                      (format_d (GetStatus l \<sigma>4) @ '' '' @ Path (urls \<sigma>4 b) @ '' '' @
                       Duration_String lib (time_Sub lib end start) @ [CHR 0x0A]) \<sigma>4 of
                 (Return n, \<sigma>5) \<Rightarrow> (Return (), \<sigma>5)
               | (Panic v, \<sigma>5) \<Rightarrow> (Panic v, \<sigma>5))"
    by (simp add: NewLoggingMiddleware_def and_then_def URL_Path_def Sprintf_d_s_v_def)
next
  assume "CHR 0x0A \<notin> set (Path (urls \<sigma>4 b)) \<and>
          CHR 0x0A \<notin> set (Duration_String lib (time_Sub lib end start))"
  then show "CHR 0x0A \<notin> set (format_d (GetStatus l \<sigma>4) @ '' '' @ Path (urls \<sigma>4 b) @ '' '' @
                              Duration_String lib (time_Sub lib end start))"
    by (simp add: format_d_no_newline)
qed

text \<open>
  The theorem at the handlers of the tests: the request \<open>GET /about/\<close> with a handler
  that answers 200 (the package's test of the logging middleware: the recorder receives
  the 200 and the buffer one line with the status and the path, ending in a newline), a
  handler that panics, a nil request, and a handler that drops the URL.
\<close>

theorem NewLoggingMiddleware_logs_one_line_witness:
  "ServeHTTP okHandler (as_ResponseWriter statusWriter) about_request
     (start_state\<lparr>heap := (heap start_state)(0 := 0), next_addr := 1\<rparr>) =
     (Return (),
      start_state\<lparr>heap := (heap start_state)(0 := 200), next_addr := 1,
                   ext := \<lparr>codes = [200], body = [], log_buffer = [], clock = 250,
                           called = True\<rparr>\<rparr>) \<and>
   ServeHTTP (NewLoggingMiddleware test_lib buffer okHandler) recorder about_request start_state =
     (Return (),
      start_state\<lparr>heap := (heap start_state)(0 := 200), next_addr := 1,
                   ext := \<lparr>codes = [200], body = [],
                           log_buffer = ''200 /about/ 250ns'' @ [CHR 0x0A],
                           clock = 250, called = True\<rparr>\<rparr>) \<and>
   CHR 0x0A \<notin> set ''200 /about/ 250ns'' \<and>
   ServeHTTP doPanic (as_ResponseWriter statusWriter) about_request
     (start_state\<lparr>heap := (heap start_state)(0 := 0), next_addr := 1\<rparr>) =
     (Panic (AnyString ''bye bye''),
      start_state\<lparr>heap := (heap start_state)(0 := 0), next_addr := 1,
                   ext := (ext start_state)\<lparr>called := True\<rparr>\<rparr>) \<and>
   ServeHTTP (NewLoggingMiddleware test_lib buffer doPanic) recorder about_request start_state =
     (Panic (AnyString ''bye bye''),
      start_state\<lparr>heap := (heap start_state)(0 := 0), next_addr := 1,
                   ext := (ext start_state)\<lparr>called := True\<rparr>\<rparr>) \<and>
   ServeHTTP (NewLoggingMiddleware test_lib buffer okHandler) recorder None start_state =
     (Panic nil_dereference,
      start_state\<lparr>heap := (heap start_state)(0 := 200), next_addr := 1,
                   ext := \<lparr>codes = [200], body = [], log_buffer = [], clock = 250,
                           called = True\<rparr>\<rparr>) \<and>
   ServeHTTP dropURL (as_ResponseWriter statusWriter) about_request
     (start_state\<lparr>heap := (heap start_state)(0 := 0), next_addr := 1\<rparr>) =
     (Return (),
      start_state\<lparr>heap := (heap start_state)(0 := 200), next_addr := 1,
                   requests := (requests start_state)(0 := \<lparr>URL = None\<rparr>),
                   ext := (ext start_state)\<lparr>codes := [200]\<rparr>\<rparr>) \<and>
   ServeHTTP (NewLoggingMiddleware test_lib buffer dropURL) recorder about_request start_state =
     (Panic nil_dereference,
      start_state\<lparr>heap := (heap start_state)(0 := 200), next_addr := 1,
                   requests := (requests start_state)(0 := \<lparr>URL = None\<rparr>),
                   ext := (ext start_state)\<lparr>codes := [200]\<rparr>\<rparr>)"
proof -
  let ?S1 = "start_state\<lparr>heap := (heap start_state)(0 := 0), next_addr := 1\<rparr>"
  let ?S3 = "start_state\<lparr>heap := (heap start_state)(0 := 200), next_addr := 1,
                   ext := \<lparr>codes = [200], body = [], log_buffer = [], clock = 250,
                           called = True\<rparr>\<rparr>"
  let ?P3 = "start_state\<lparr>heap := (heap start_state)(0 := 0), next_addr := 1,
                   ext := (ext start_state)\<lparr>called := True\<rparr>\<rparr>"
  let ?D3 = "start_state\<lparr>heap := (heap start_state)(0 := 200), next_addr := 1,
                   requests := (requests start_state)(0 := \<lparr>URL = None\<rparr>),
                   ext := (ext start_state)\<lparr>codes := [200]\<rparr>\<rparr>"
  note fixture_defs = as_ResponseWriter_def WriteHeader_def setStatus_def status_def
    status_assign_def statusWriter_def recorder_def StatusOK_def start_state_def
    about_request_def
  have alloc: "new_statusResponseWriter recorder start_state = (statusWriter, ?S1)"
    by (simp add: new_statusResponseWriter_def statusWriter_def start_state_def)
  have now1: "time_Now test_lib ?S1 = (0, ?S1)"
    by (simp add: test_lib_def start_state_def)
  have ok: "ServeHTTP okHandler (as_ResponseWriter statusWriter) about_request ?S1 =
      (Return (), ?S3)"
    by (simp add: okHandler_def fixture_defs)
  have ok_nil: "ServeHTTP okHandler (as_ResponseWriter statusWriter) None ?S1 = (Return (), ?S3)"
    by (simp add: okHandler_def fixture_defs)
  have now_ok: "time_Now test_lib ?S3 = (250, ?S3)"
    by (simp add: test_lib_def start_state_def)
  have panics: "ServeHTTP doPanic (as_ResponseWriter statusWriter) about_request ?S1 =
      (Panic (AnyString ''bye bye''), ?P3)"
    by (simp add: doPanic_def fixture_defs)
  have now_panics: "time_Now test_lib ?P3 = (0, ?P3)"
    by (simp add: test_lib_def start_state_def)
  have drops: "ServeHTTP dropURL (as_ResponseWriter statusWriter) about_request ?S1 =
      (Return (), ?D3)"
    by (simp add: dropURL_def fixture_defs)
  have now_drops: "time_Now test_lib ?D3 = (0, ?D3)"
    by (simp add: test_lib_def start_state_def)
  have line: "ServeHTTP (NewLoggingMiddleware test_lib buffer okHandler) recorder about_request
      start_state =
     (Return (),
      start_state\<lparr>heap := (heap start_state)(0 := 200), next_addr := 1,
                   ext := \<lparr>codes = [200], body = [],
                           log_buffer = ''200 /about/ 250ns'' @ [CHR 0x0A],
                           clock = 250, called = True\<rparr>\<rparr>)"
    using NewLoggingMiddleware_logs_one_line [OF alloc now1 ok now_ok, where a = 0 and b = 0
        and out = buffer]
    by (simp add: about_request_def start_state_def GetStatus_def status_def statusWriter_def
        test_lib_def buffer_def format_d_200 format_d_250)
  have one_line: "CHR 0x0A \<notin> set ''200 /about/ 250ns''"
    by simp
  have propagates: "ServeHTTP (NewLoggingMiddleware test_lib buffer doPanic) recorder
      about_request start_state = (Panic (AnyString ''bye bye''), ?P3)"
    using NewLoggingMiddleware_logs_one_line [OF alloc now1 panics now_panics,
        where v = "AnyString ''bye bye''" and out = buffer]
    by simp
  have nil_request: "ServeHTTP (NewLoggingMiddleware test_lib buffer okHandler) recorder None
      start_state = (Panic nil_dereference, ?S3)"
    using NewLoggingMiddleware_logs_one_line [OF alloc now1 ok_nil now_ok, where out = buffer]
    by simp
  have nil_url: "ServeHTTP (NewLoggingMiddleware test_lib buffer dropURL) recorder about_request
      start_state = (Panic nil_dereference, ?D3)"
    using NewLoggingMiddleware_logs_one_line [OF alloc now1 drops now_drops, where a = 0
        and out = buffer]
    by (simp add: about_request_def start_state_def)
  from ok line one_line panics propagates nil_request drops nil_url show ?thesis
    by blast
qed

text \<open>
  The path is read after the inner handler ran: when the inner handler moves the request,
  the line shows the new path.
\<close>

lemma rewritten_path_is_logged:
  "ServeHTTP (NewLoggingMiddleware test_lib buffer rewritePath) recorder about_request start_state =
     (Return (),
      start_state\<lparr>heap := (heap start_state)(0 := 200), next_addr := 1,
                   urls := (urls start_state)(0 := \<lparr>Path = ''/moved/''\<rparr>),
                   ext := \<lparr>codes = [200], body = [],
                           log_buffer = ''200 /moved/ 250ns'' @ [CHR 0x0A],
                           clock = 250, called = False\<rparr>\<rparr>)"
  by (simp add: logging_example_defs rewritePath_def format_d_200 format_d_250)

end
